theory Spec2Isabelle
  imports Main
begin

section \<open>Data model of \<open>src/backend/main.py\<close>\<close>

text \<open>
  Python strings are modelled as \<open>string\<close>; text outside ASCII (the emoji of the log
  messages, the brackets of the prompt) is written as its UTF-8 bytes, exactly the bytes
  of the source file.

  An exception caught by \<open>except Exception as e\<close> is the value \<open>Exception s\<close>, where
  \<open>s\<close> is what Python's \<open>str(e)\<close> gives; \<open>ConnectionError("timeout")\<close> is
  \<open>Exception ''timeout''\<close>. What \<open>except Exception\<close> does not catch (the
  cancellation of the task, the exit of the interpreter) is outside the model, and so is
  the console output of the \<open>print\<close> calls.
\<close>

datatype exn = Exception string

fun str :: "exn \<Rightarrow> string" where
  "str (Exception s) = s"

text \<open>
  \<open>class AgentState(TypedDict)\<close>, lines 58 to 62. The channel \<open>logs\<close> is declared with
  the reducer \<open>operator.add\<close>; the other channels have none.
\<close>

record AgentState =
  topic :: string
  logs :: "string list"
  search_data :: string
  final_report :: string

text \<open>
  The dictionary a node returns. A key that the dictionary does not have is \<open>None\<close>:
  \<open>research_node\<close> returns the keys \<open>logs\<close> and \<open>search_data\<close>, \<open>writer_node\<close> the
  keys \<open>logs\<close> and \<open>final_report\<close>.
\<close>

record update =
  u_logs :: "string list option"
  u_search_data :: "string option"
  u_final_report :: "string option"

text \<open>
  The calls a run makes to the two external capabilities, in the order they are made:
  \<open>search_tool.invoke(topic)\<close> and \<open>llm.ainvoke([HumanMessage(content=prompt)])\<close>.
\<close>

datatype call = SearchInvoke string | LlmAinvoke string

text \<open>
  The module-level handles and the library functions the nodes use.
  \<^item> \<open>search_tool\<close> is \<open>None\<close> when the initialisation at lines 33 to 39 failed;
    otherwise its \<open>invoke\<close> maps the topic to the search results or raises.
  \<open>'r\<close> is the type of the search results.
  \<^item> \<open>json_dumps_results\<close> is \<open>json.dumps(search_results, ensure_ascii=False)\<close> of
    line 83; it raises on a result that is not serialisable, inside the same \<open>try\<close>.
  \<^item> \<open>llm\<close> is \<open>None\<close> unless lines 44 to 54 initialised it; otherwise it maps the
    prompt to \<open>response.content\<close> or raises.
\<close>

record 'r env =
  search_tool :: "(string \<Rightarrow> exn + 'r) option"
  json_dumps_results :: "'r \<Rightarrow> exn + string"
  llm :: "(string \<Rightarrow> exn + string) option"

section \<open>The nodes\<close>

definition search_not_initialized :: string where
  "search_not_initialized =
     [CHR 0xE2, CHR 0x9D, CHR 0x8C] @ '' Error: Search tool not initialized (check TAVILY_API_KEY)''"

definition no_search_data :: string where
  "no_search_data = ''No search data (tool failure)''"

definition researcher_log_start :: "string \<Rightarrow> string" where
  "researcher_log_start tpc =
     [CHR 0xF0, CHR 0x9F, CHR 0x95, CHR 0xB5, CHR 0xEF, CHR 0xB8, CHR 0x8F]
       @ '' Researcher: Searching Tavily for '' @ [CHR 0x27] @ tpc @ [CHR 0x27] @ ''...''"

definition search_error_log :: "exn \<Rightarrow> string" where
  "search_error_log e =
     [CHR 0xE2, CHR 0x9A, CHR 0xA0, CHR 0xEF, CHR 0xB8, CHR 0x8F] @ '' Search Error: '' @ str e"

definition search_failed :: "exn \<Rightarrow> string" where
  "search_failed e = ''Search Failed: '' @ str e"

definition researcher_log_end :: string where
  "researcher_log_end = [CHR 0xE2, CHR 0x9C, CHR 0x85] @ '' Researcher: Latest data retrieved.''"

text \<open>
  \<open>research_node\<close>, lines 68 to 95. The result is the list of capability calls made and
  what the coroutine does: \<open>Inr\<close> the returned dictionary, \<open>Inl\<close> an exception that
  leaves the function. The body of the \<open>try\<close> is the search call followed by the
  serialisation of its result; an exception of either is handled by the \<open>except\<close>
  branch, which overwrites \<open>log_start\<close>.
\<close>

definition research_node :: "'r env \<Rightarrow> AgentState \<Rightarrow> call list \<times> (exn + update)" where
  "research_node env state =
     (let tpc = topic state in
      case search_tool env of
        None \<Rightarrow>
          ([], Inr \<lparr>u_logs = Some [search_not_initialized],
                    u_search_data = Some no_search_data,
                    u_final_report = None\<rparr>)
      | Some tool \<Rightarrow>
          (let log_start = researcher_log_start tpc;
               tried = (case tool tpc of
                          Inl e \<Rightarrow> Inl e
                        | Inr search_results \<Rightarrow> json_dumps_results env search_results);
               (log_start, sdata) =
                  (case tried of
                     Inr sdata \<Rightarrow> (log_start, sdata)
                   | Inl e \<Rightarrow> (search_error_log e, search_failed e));
               log_end = researcher_log_end
           in ([SearchInvoke tpc],
               Inr \<lparr>u_logs = Some [log_start, log_end],
                     u_search_data = Some sdata,
                     u_final_report = None\<rparr>)))"

definition llm_not_running :: string where
  "llm_not_running = [CHR 0xE2, CHR 0x9D, CHR 0x8C] @ '' Fatal Error: LLM is not running''"

definition system_error_report :: string where
  "system_error_report =
     ''## System Error'' @ [CHR 0x0A]
     @ ''Cannot generate report because LLM initialization failed.'' @ [CHR 0x0A, CHR 0x0A]
     @ ''Please check backend console logs to confirm `GROQ_API_KEY` is set correctly.''"

definition writer_log_start :: string where
  "writer_log_start =
     [CHR 0xE2, CHR 0x9C, CHR 0x8D, CHR 0xEF, CHR 0xB8, CHR 0x8F]
       @ '' Writer: Llama 3.3 is drafting the report...''"

definition prompt :: "string \<Rightarrow> string \<Rightarrow> string" where
  "prompt tpc sd =
     [CHR 0x0A]
     @ ''    You are a senior technical analyst. Please write a briefing on '' @ [CHR 0x22]
     @ tpc @ [CHR 0x22] @ '' based on the provided online search results.'' @ [CHR 0x0A, CHR 0x0A]
     @ ''    '' @ [CHR 0xE3, CHR 0x80, CHR 0x90] @ ''Search Result Data''
     @ [CHR 0xE3, CHR 0x80, CHR 0x91] @ '':'' @ [CHR 0x0A]
     @ ''    '' @ sd @ [CHR 0x0A, CHR 0x0A]
     @ ''    '' @ [CHR 0xE3, CHR 0x80, CHR 0x90] @ ''Requirements''
     @ [CHR 0xE3, CHR 0x80, CHR 0x91] @ '':'' @ [CHR 0x0A]
     @ ''    1. Use Markdown format.'' @ [CHR 0x0A]
     @ ''    2. Cite specific data or sources from the search results.'' @ [CHR 0x0A]
     @ ''    3. Clear structure: Title, Executive Summary, Key Findings, Conclusion.'' @ [CHR 0x0A]
     @ ''    4. Professional and objective tone.'' @ [CHR 0x0A]
     @ ''    ''"

definition llm_call_failed :: "exn \<Rightarrow> string" where
  "llm_call_failed e = [CHR 0xE2, CHR 0x9D, CHR 0x8C] @ '' LLM Call Failed: '' @ str e"

definition writer_log_end :: string where
  "writer_log_end = [CHR 0xE2, CHR 0x9C, CHR 0x85] @ '' Writer: Report generated.''"

text \<open>\<open>writer_node\<close>, lines 99 to 136.\<close>

definition writer_node :: "'r env \<Rightarrow> AgentState \<Rightarrow> call list \<times> (exn + update)" where
  "writer_node env state =
     (case llm env of
        None \<Rightarrow>
          ([], Inr \<lparr>u_logs = Some [llm_not_running],
                    u_search_data = None,
                    u_final_report = Some system_error_report\<rparr>)
      | Some ainvoke \<Rightarrow>
          (let tpc = topic state;
               sd = search_data state;
               log_start = writer_log_start;
               p = prompt tpc sd;
               report_content = (case ainvoke p of
                                   Inr content \<Rightarrow> content
                                 | Inl e \<Rightarrow> llm_call_failed e);
               log_end = writer_log_end
           in ([LlmAinvoke p],
               Inr \<lparr>u_logs = Some [log_start, log_end],
                     u_search_data = None,
                     u_final_report = Some report_content\<rparr>)))"

section \<open>The graph\<close>

text \<open>
  Modelled from the spec: the merge of a node's dictionary into the run state is done by
  the graph library (\<open>StateGraph\<close>), which is not part of the source; the source only
  declares the channels (lines 58 to 62). Following section 3 of the specification and
  that declaration: the entries of the key \<open>logs\<close> are appended (\<open>operator.add\<close>), a
  key that is present replaces the value of its field, and a key that is absent leaves
  the field as it was.
\<close>

definition merge_update :: "AgentState \<Rightarrow> update \<Rightarrow> AgentState" where
  "merge_update state u =
     state\<lparr>logs := (case u_logs u of None \<Rightarrow> logs state | Some ls \<Rightarrow> logs state @ ls),
           search_data := (case u_search_data u of None \<Rightarrow> search_data state | Some d \<Rightarrow> d),
           final_report := (case u_final_report u of None \<Rightarrow> final_report state | Some r \<Rightarrow> r)\<rparr>"

text \<open>
  One item of \<open>app_graph.astream(inputs)\<close>: a dictionary from the name of the node that
  finished to the dictionary the node returned, in insertion order.
\<close>

type_synonym item = "(string \<times> update) list"

text \<open>
  Modelled from the spec: the traversal is the graph library's. The wiring is the
  source's, lines 140 to 148: entry point \<open>researcher\<close>, an edge from \<open>researcher\<close> to
  \<open>writer\<close>, an edge from \<open>writer\<close> to \<open>END\<close>. Following section 4.3 of the
  specification, the stages run in that order, each on the state merged so far, and one
  item is produced per finished stage; an exception that leaves a node ends the iteration
  with that exception. The result is the calls made, the items produced, and the
  exception that ended the iteration, if any.
\<close>

definition app_graph_astream ::
    "'r env \<Rightarrow> AgentState \<Rightarrow> call list \<times> item list \<times> exn option" where
  "app_graph_astream env state =
     (case research_node env state of
        (calls1, Inl e) \<Rightarrow> (calls1, [], Some e)
      | (calls1, Inr u1) \<Rightarrow>
          (case writer_node env (merge_update state u1) of
             (calls2, Inl e) \<Rightarrow> (calls1 @ calls2, [[(''researcher'', u1)]], Some e)
           | (calls2, Inr u2) \<Rightarrow>
               (calls1 @ calls2, [[(''researcher'', u1)], [(''writer'', u2)]], None)))"

section \<open>The stream adapter\<close>

text \<open>
  What \<open>event_generator\<close> yields. \<open>Data d\<close> is the text
  \<open>f"data: {json.dumps(d)}\n\n"\<close> for the dictionary \<open>d\<close> (keys in insertion order),
  \<open>DONE\<close> is the text \<open>"data: [DONE]\n\n"\<close>. The encoder \<open>json.dumps\<close> is the
  standard library's; \<open>sse_text\<close> gives the text of a unit for a given encoder.
\<close>

datatype chunk = Data "(string \<times> string) list" | DONE

fun sse_text :: "((string \<times> string) list \<Rightarrow> string) \<Rightarrow> chunk \<Rightarrow> string" where
  "sse_text json_dumps (Data d) = ''data: '' @ json_dumps d @ [CHR 0x0A, CHR 0x0A]"
| "sse_text json_dumps DONE = ''data: [DONE]'' @ [CHR 0x0A, CHR 0x0A]"

text \<open>
  The effects of the generator, in order: a \<open>yield\<close>, or \<open>await asyncio.sleep(0.1)\<close>,
  written with its duration in milliseconds.
\<close>

datatype action = Yield chunk | Sleep nat

definition log_event :: "string \<Rightarrow> chunk" where
  "log_event content = Data [(''type'', ''log''), (''content'', content)]"

definition report_event :: "string \<Rightarrow> chunk" where
  "report_event content = Data [(''type'', ''report''), (''content'', content)]"

text \<open>Lines 163 to 166: \<open>for log in value["logs"]\<close>.\<close>

fun log_actions :: "string list \<Rightarrow> action list" where
  "log_actions [] = []"
| "log_actions (log # rest) = Yield (log_event log) # Sleep 100 # log_actions rest"

text \<open>
  Lines 162 to 170, the body of the loop over the entries of one item. A report is
  yielded only when the key is present and its value is a non-empty string.
\<close>

definition value_actions :: "update \<Rightarrow> action list" where
  "value_actions v =
     (case u_logs v of None \<Rightarrow> [] | Some ls \<Rightarrow> log_actions ls)
     @ (case u_final_report v of
          None \<Rightarrow> []
        | Some r \<Rightarrow> if r \<noteq> [] then [Yield (report_event r)] else [])"

text \<open>Line 160: \<open>for key, value in output.items()\<close>.\<close>

fun output_actions :: "item \<Rightarrow> action list" where
  "output_actions [] = []"
| "output_actions ((key, v) # rest) = value_actions v @ output_actions rest"

definition system_error :: "exn \<Rightarrow> string" where
  "system_error e = ''System Error: '' @ str e"

text \<open>
  Lines 157 to 176 for an iterator that produces the given items and then either ends
  (\<open>None\<close>) or raises (\<open>Some e\<close>): the \<open>async for\<close>, the \<open>except\<close> branch, and the
  final \<open>yield\<close>.
\<close>

fun stream_actions :: "item list \<Rightarrow> exn option \<Rightarrow> action list" where
  "stream_actions [] None = [Yield DONE]"
| "stream_actions [] (Some e) = [Yield (log_event (system_error e)), Yield DONE]"
| "stream_actions (out # rest) raised = output_actions out @ stream_actions rest raised"

text \<open>
  \<open>event_generator\<close>, lines 153 to 176, for the request's \<open>topic\<close>: the calls made to the
  capabilities and the effects of the generator. \<open>inputs\<close> is the dictionary of line 155.
\<close>

definition inputs :: "string \<Rightarrow> AgentState" where
  "inputs tpc = \<lparr>topic = tpc, logs = [], search_data = [], final_report = []\<rparr>"

definition event_generator :: "'r env \<Rightarrow> string \<Rightarrow> call list \<times> action list" where
  "event_generator env tpc =
     (case app_graph_astream env (inputs tpc) of
        (calls, outs, raised) \<Rightarrow> (calls, stream_actions outs raised))"

text \<open>The units yielded, in order, without the pauses.\<close>

fun yielded :: "action list \<Rightarrow> chunk list" where
  "yielded [] = []"
| "yielded (Yield c # rest) = c # yielded rest"
| "yielded (Sleep ms # rest) = yielded rest"

section \<open>The properties in the specification's words\<close>

text \<open>
  The transport events of the specification: a \<open>Log\<close> event is a unit whose dictionary
  has the type \<open>log\<close>, a \<open>Report\<close> event one with the type \<open>report\<close>, and \<open>Done\<close>
  is the sentinel.
\<close>

fun is_log :: "chunk \<Rightarrow> bool" where
  "is_log (Data [(k1, t), (k2, c)]) = (k1 = ''type'' \<and> t = ''log'' \<and> k2 = ''content'')"
| "is_log c = False"

fun is_report :: "chunk \<Rightarrow> bool" where
  "is_report (Data [(k1, t), (k2, c)]) = (k1 = ''type'' \<and> t = ''report'' \<and> k2 = ''content'')"
| "is_report c = False"

text \<open>
  Section 8: at least one \<open>Log\<close> event, then exactly one \<open>Report\<close> event, then exactly
  one \<open>Done\<close>, and nothing after it.
\<close>

definition logs_report_done :: "chunk list \<Rightarrow> bool" where
  "logs_report_done cs =
     (case rev cs of
        d # r # ls \<Rightarrow> d = DONE \<and> is_report r \<and> ls \<noteq> [] \<and> list_all is_log ls
      | _ \<Rightarrow> False)"

text \<open>
  Section 6: the text of the stream for an encoder, the text of one unit with a type and
  a content, and the two types the wire format allows.
\<close>

definition stream_text :: "((string \<times> string) list \<Rightarrow> string) \<Rightarrow> action list \<Rightarrow> string list" where
  "stream_text json_dumps acts = map (sse_text json_dumps) (yielded acts)"

definition unit_text :: "((string \<times> string) list \<Rightarrow> string) \<Rightarrow> string \<times> string \<Rightarrow> string" where
  "unit_text json_dumps ev =
     ''data: '' @ json_dumps [(''type'', fst ev), (''content'', snd ev)] @ [CHR 0x0A, CHR 0x0A]"

definition log_or_report :: "string \<times> string \<Rightarrow> bool" where
  "log_or_report ev = (fst ev = ''log'' \<or> fst ev = ''report'')"

text \<open>
  Section 4.1: the logs of the research stage are one or two entries, the first of them
  the start-of-search log.
\<close>

definition start_then_outcome :: "string \<Rightarrow> string list \<Rightarrow> bool" where
  "start_then_outcome tpc ls =
     (case ls of
        [a] \<Rightarrow> a = researcher_log_start tpc
      | [a, b] \<Rightarrow> a = researcher_log_start tpc
      | _ \<Rightarrow> False)"



section \<open>Example runs\<close>

text \<open>
  The scenario of section 8 of the specification: the search returns one record, whose
  serialisation with \<open>ensure_ascii=False\<close> is \<open>scenario_json\<close>, and the generation
  returns a report.
\<close>

type_synonym results = "(string \<times> string) list list"

definition scenario_results :: results where
  "scenario_results = [[(''title'', ''A''), (''url'', ''u1''), (''snippet'', ''s1'')]]"

definition scenario_json :: string where
  \<open>scenario_json = ''[{"title": "A", "url": "u1", "snippet": "s1"}]''\<close>

definition env_scenario :: "results env" where
  "env_scenario =
     \<lparr>search_tool = Some (\<lambda>q. Inr scenario_results),
      json_dumps_results = (\<lambda>r. Inr scenario_json),
      llm = Some (\<lambda>p. Inr ''## Report'')\<rparr>"

text \<open>The same, with a generation call that succeeds and returns the empty text.\<close>

definition env_empty_report :: "results env" where
  "env_empty_report = env_scenario\<lparr>llm := Some (\<lambda>p. Inr [])\<rparr>"

text \<open>The search call raises \<open>ConnectionError("timeout")\<close>.\<close>

definition env_timeout :: "results env" where
  "env_timeout = env_scenario\<lparr>search_tool := Some (\<lambda>q. Inl (Exception ''timeout''))\<rparr>"

text \<open>The search call succeeds and the serialisation of its result raises.\<close>

definition env_unserialisable :: "results env" where
  "env_unserialisable =
     env_scenario\<lparr>json_dumps_results := (\<lambda>r. Inl (Exception ''Circular reference detected''))\<rparr>"



text \<open>The generation call raises.\<close>

definition env_llm_fails :: "results env" where
  "env_llm_fails = env_scenario\<lparr>llm := Some (\<lambda>p. Inl (Exception ''rate limit''))\<rparr>"

section \<open>The nodes, case by case\<close>


lemma research_node_succeeds:
  "search_tool env = Some tool \<Longrightarrow> tool (topic state) = Inr r \<Longrightarrow>
   json_dumps_results env r = Inr sd \<Longrightarrow>
   research_node env state =
     ([SearchInvoke (topic state)],
      Inr \<lparr>u_logs = Some [researcher_log_start (topic state), researcher_log_end],
           u_search_data = Some sd, u_final_report = None\<rparr>)"
  by (simp add: research_node_def Let_def)

lemma research_node_call_raises:
  "search_tool env = Some tool \<Longrightarrow> tool (topic state) = Inl e \<Longrightarrow>
   research_node env state =
     ([SearchInvoke (topic state)],
      Inr \<lparr>u_logs = Some [search_error_log e, researcher_log_end],
           u_search_data = Some (search_failed e), u_final_report = None\<rparr>)"
  by (simp add: research_node_def Let_def)

lemma research_node_dumps_raises:
  "search_tool env = Some tool \<Longrightarrow> tool (topic state) = Inr r \<Longrightarrow>
   json_dumps_results env r = Inl e \<Longrightarrow>
   research_node env state =
     ([SearchInvoke (topic state)],
      Inr \<lparr>u_logs = Some [search_error_log e, researcher_log_end],
           u_search_data = Some (search_failed e), u_final_report = None\<rparr>)"
  by (simp add: research_node_def Let_def)

lemma research_node_returns: "\<exists>calls u. research_node env state = (calls, Inr u)"
  by (simp add: research_node_def Let_def split: option.split sum.split prod.split)


lemma writer_node_succeeds:
  "llm env = Some ainvoke \<Longrightarrow> ainvoke (prompt (topic state) (search_data state)) = Inr content \<Longrightarrow>
   writer_node env state =
     ([LlmAinvoke (prompt (topic state) (search_data state))],
      Inr \<lparr>u_logs = Some [writer_log_start, writer_log_end], u_search_data = None,
           u_final_report = Some content\<rparr>)"
  by (simp add: writer_node_def Let_def)

lemma writer_node_call_raises:
  "llm env = Some ainvoke \<Longrightarrow> ainvoke (prompt (topic state) (search_data state)) = Inl e \<Longrightarrow>
   writer_node env state =
     ([LlmAinvoke (prompt (topic state) (search_data state))],
      Inr \<lparr>u_logs = Some [writer_log_start, writer_log_end], u_search_data = None,
           u_final_report = Some (llm_call_failed e)\<rparr>)"
  by (simp add: writer_node_def Let_def)

lemma writer_node_returns: "\<exists>calls u. writer_node env state = (calls, Inr u)"
  by (simp add: writer_node_def Let_def split: option.split sum.split)


section \<open>The graph and the adapter\<close>

lemma app_graph_astream_nodes:
  "research_node env state = (calls1, Inr u1) \<Longrightarrow>
   writer_node env (merge_update state u1) = (calls2, Inr u2) \<Longrightarrow>
   app_graph_astream env state =
     (calls1 @ calls2, [[(''researcher'', u1)], [(''writer'', u2)]], None)"
  by (simp add: app_graph_astream_def)

lemma event_generator_nodes:
  "research_node env (inputs tpc) = (calls1, Inr u1) \<Longrightarrow>
   writer_node env (merge_update (inputs tpc) u1) = (calls2, Inr u2) \<Longrightarrow>
   event_generator env tpc =
     (calls1 @ calls2, value_actions u1 @ value_actions u2 @ [Yield DONE])"
  by (simp add: event_generator_def app_graph_astream_nodes)

lemma yielded_append: "yielded (xs @ ys) = yielded xs @ yielded ys"
  by (induction xs rule: yielded.induct) simp_all

lemma yielded_log_actions: "yielded (log_actions ls) = map log_event ls"
  by (induction ls) simp_all

lemma stream_text_append: "stream_text jd (xs @ ys) = stream_text jd xs @ stream_text jd ys"
  by (simp add: stream_text_def yielded_append)

text \<open>The text of what one dictionary of a node makes the adapter yield.\<close>

lemma value_texts:
  "\<exists>evs. stream_text jd (value_actions v) = map (unit_text jd) evs \<and> list_all log_or_report evs"
proof -
  let ?ls = "case u_logs v of None \<Rightarrow> [] | Some ls \<Rightarrow> ls"
  let ?rs = "case u_final_report v of None \<Rightarrow> [] | Some r \<Rightarrow> if r \<noteq> [] then [r] else []"
  let ?evs = "map (Pair ''log'') ?ls @ map (Pair ''report'') ?rs"
  have "stream_text jd (value_actions v) = map (unit_text jd) ?evs"
    by (simp add: stream_text_def value_actions_def yielded_append yielded_log_actions
        log_event_def report_event_def unit_text_def split: option.split)
  moreover have "list_all log_or_report ?evs"
    by (auto simp: list_all_iff log_or_report_def)
  ultimately show ?thesis by blast
qed

lemma output_texts:
  "\<exists>evs. stream_text jd (output_actions out) = map (unit_text jd) evs \<and> list_all log_or_report evs"
proof (induction out)
  case Nil
  have "stream_text jd (output_actions []) = map (unit_text jd) [] \<and> list_all log_or_report []"
    by (simp add: stream_text_def)
  then show ?case by blast
next
  case (Cons kv out)
  obtain key v where kv: "kv = (key, v)" by (cases kv)
  from Cons obtain evs2 where
    2: "stream_text jd (output_actions out) = map (unit_text jd) evs2" "list_all log_or_report evs2"
    by blast
  from value_texts [of jd v] obtain evs1 where
    1: "stream_text jd (value_actions v) = map (unit_text jd) evs1" "list_all log_or_report evs1"
    by blast
  have "stream_text jd (output_actions (kv # out)) = map (unit_text jd) (evs1 @ evs2)
        \<and> list_all log_or_report (evs1 @ evs2)"
    using 1 2 by (simp add: kv stream_text_append)
  then show ?case by blast
qed

lemma stream_texts:
  "\<exists>evs. stream_text jd (stream_actions outs raised)
           = map (unit_text jd) evs @ [''data: [DONE]'' @ [CHR 0x0A, CHR 0x0A]]
         \<and> list_all log_or_report evs"
proof (induction outs)
  case Nil
  show ?case
  proof (cases raised)
    case None
    have "stream_text jd (stream_actions [] None)
            = map (unit_text jd) [] @ [''data: [DONE]'' @ [CHR 0x0A, CHR 0x0A]]
          \<and> list_all log_or_report []"
      by (simp add: stream_text_def)
    then show ?thesis unfolding None by blast
  next
    case (Some e)
    have "stream_text jd (stream_actions [] (Some e))
            = map (unit_text jd) [(''log'', system_error e)] @ [''data: [DONE]'' @ [CHR 0x0A, CHR 0x0A]]
          \<and> list_all log_or_report [(''log'', system_error e)]"
      by (simp add: stream_text_def log_event_def unit_text_def log_or_report_def)
    then show ?thesis unfolding Some by blast
  qed
next
  case (Cons out outs)
  from Cons obtain evs2 where
    2: "stream_text jd (stream_actions outs raised)
          = map (unit_text jd) evs2 @ [''data: [DONE]'' @ [CHR 0x0A, CHR 0x0A]]"
       "list_all log_or_report evs2"
    by blast
  from output_texts [of jd out] obtain evs1 where
    1: "stream_text jd (output_actions out) = map (unit_text jd) evs1" "list_all log_or_report evs1"
    by blast
  have "stream_text jd (stream_actions (out # outs) raised)
          = map (unit_text jd) (evs1 @ evs2) @ [''data: [DONE]'' @ [CHR 0x0A, CHR 0x0A]]
        \<and> list_all log_or_report (evs1 @ evs2)"
    using 1 2 by (simp add: stream_text_append)
  then show ?case by blast
qed

text \<open>
  Neither node lets an exception out, so the iteration over the graph as it is wired
  produces both items and does not raise.
\<close>

lemma app_graph_astream_completes:
  "\<exists>calls u1 u2. app_graph_astream env state
      = (calls, [[(''researcher'', u1)], [(''writer'', u2)]], None)"
proof -
  obtain c1 u1 where r: "research_node env state = (c1, Inr u1)"
    using research_node_returns by blast
  obtain c2 u2 where w: "writer_node env (merge_update state u1) = (c2, Inr u2)"
    using writer_node_returns by blast
  show ?thesis using app_graph_astream_nodes [OF r w] by blast
qed

lemma stream_actions_concat:
  "stream_actions outs raised =
     concat (map output_actions outs)
     @ (case raised of None \<Rightarrow> [] | Some e \<Rightarrow> [Yield (log_event (system_error e))])
     @ [Yield DONE]"
  by (induction outs) (simp_all split: option.split)

subsection \<open>Where the generator pauses\<close>









subsection \<open>Two runs, step by step\<close>

lemma scenario_run:
  "event_generator env_scenario ''x'' =
     ([SearchInvoke ''x'', LlmAinvoke (prompt ''x'' scenario_json)],
      [Yield (log_event (researcher_log_start ''x'')), Sleep 100,
       Yield (log_event researcher_log_end), Sleep 100,
       Yield (log_event writer_log_start), Sleep 100,
       Yield (log_event writer_log_end), Sleep 100,
       Yield (report_event ''## Report''), Yield DONE])"
proof -
  let ?u1 = "\<lparr>u_logs = Some [researcher_log_start ''x'', researcher_log_end],
              u_search_data = Some scenario_json, u_final_report = None\<rparr>"
  let ?u2 = "\<lparr>u_logs = Some [writer_log_start, writer_log_end], u_search_data = None,
              u_final_report = Some ''## Report''\<rparr>"
  have r: "research_node env_scenario (inputs ''x'') = ([SearchInvoke ''x''], Inr ?u1)"
    using research_node_succeeds [of env_scenario "\<lambda>q. Inr scenario_results" "inputs ''x''"
                                    scenario_results scenario_json]
    by (simp add: env_scenario_def inputs_def)
  have w: "writer_node env_scenario (merge_update (inputs ''x'') ?u1)
             = ([LlmAinvoke (prompt ''x'' scenario_json)], Inr ?u2)"
    using writer_node_succeeds [of env_scenario "\<lambda>p. Inr ''## Report''"
                                  "merge_update (inputs ''x'') ?u1" "''## Report''"]
    by (simp add: merge_update_def env_scenario_def inputs_def)
  show ?thesis
    by (simp add: event_generator_nodes [OF r w] value_actions_def)
qed

lemma empty_report_run:
  "event_generator env_empty_report ''x'' =
     ([SearchInvoke ''x'', LlmAinvoke (prompt ''x'' scenario_json)],
      [Yield (log_event (researcher_log_start ''x'')), Sleep 100,
       Yield (log_event researcher_log_end), Sleep 100,
       Yield (log_event writer_log_start), Sleep 100,
       Yield (log_event writer_log_end), Sleep 100,
       Yield DONE])"
proof -
  let ?u1 = "\<lparr>u_logs = Some [researcher_log_start ''x'', researcher_log_end],
              u_search_data = Some scenario_json, u_final_report = None\<rparr>"
  let ?u2 = "\<lparr>u_logs = Some [writer_log_start, writer_log_end], u_search_data = None,
              u_final_report = Some []\<rparr>"
  have r: "research_node env_empty_report (inputs ''x'') = ([SearchInvoke ''x''], Inr ?u1)"
    using research_node_succeeds [of env_empty_report "\<lambda>q. Inr scenario_results" "inputs ''x''"
                                    scenario_results scenario_json]
    by (simp add: env_empty_report_def env_scenario_def inputs_def)
  have w: "writer_node env_empty_report (merge_update (inputs ''x'') ?u1)
             = ([LlmAinvoke (prompt ''x'' scenario_json)], Inr ?u2)"
    using writer_node_succeeds [of env_empty_report "\<lambda>p. Inr []"
                                  "merge_update (inputs ''x'') ?u1" "[]"]
    by (simp add: merge_update_def env_empty_report_def env_scenario_def inputs_def)
  show ?thesis
    by (simp add: event_generator_nodes [OF r w] value_actions_def)
qed

section \<open>Properties of the pipeline\<close>

text \<open>
  C1, as amended. For every topic, a run in which both capabilities are initialised, the
  search call and the generation call succeed, and the generated text is not empty,
  yields two logs of the researcher, the two logs of the writer, then one report with the
  generated text, then \<open>DONE\<close>, and nothing after it: at least one \<open>Log\<close>, exactly one
  \<open>Report\<close>, exactly one \<open>Done\<close>, in this order. The first log is the
  start-of-search log, or the error log when the result of the search cannot be
  serialised; the prompt of the generation call holds the serialised result, or the text
  of that failure.
\<close>

theorem ordered_events_when_report_nonempty:
  assumes "search_tool env = Some tool" and "tool tpc = Inr r"
      and "llm env = Some ainvoke"
      and "ainvoke (prompt tpc (case json_dumps_results env r of
                                  Inr sd \<Rightarrow> sd | Inl e \<Rightarrow> search_failed e)) = Inr content"
      and "content \<noteq> []"
  shows "yielded (snd (event_generator env tpc)) =
           [log_event (case json_dumps_results env r of
                         Inr sd \<Rightarrow> researcher_log_start tpc | Inl e \<Rightarrow> search_error_log e),
            log_event researcher_log_end,
            log_event writer_log_start, log_event writer_log_end,
            report_event content, DONE]
         \<and> logs_report_done (yielded (snd (event_generator env tpc)))"
proof -
  let ?first = "case json_dumps_results env r of
                  Inr sd \<Rightarrow> researcher_log_start tpc | Inl e \<Rightarrow> search_error_log e"
  let ?sd = "case json_dumps_results env r of Inr sd \<Rightarrow> sd | Inl e \<Rightarrow> search_failed e"
  let ?u1 = "\<lparr>u_logs = Some [?first, researcher_log_end],
              u_search_data = Some ?sd, u_final_report = None\<rparr>"
  let ?u2 = "\<lparr>u_logs = Some [writer_log_start, writer_log_end], u_search_data = None,
              u_final_report = Some content\<rparr>"
  have r: "research_node env (inputs tpc) = ([SearchInvoke tpc], Inr ?u1)"
  proof (cases "json_dumps_results env r")
    case (Inl e)
    then show ?thesis
      using research_node_dumps_raises [of env tool "inputs tpc" r e] assms(1,2)
      by (simp add: inputs_def)
  next
    case (Inr sd)
    then show ?thesis
      using research_node_succeeds [of env tool "inputs tpc" r sd] assms(1,2)
      by (simp add: inputs_def)
  qed
  have w: "writer_node env (merge_update (inputs tpc) ?u1)
             = ([LlmAinvoke (prompt tpc ?sd)], Inr ?u2)"
    using writer_node_succeeds [of env ainvoke "merge_update (inputs tpc) ?u1" content] assms(3,4)
    by (simp add: merge_update_def inputs_def)
  have y: "yielded (snd (event_generator env tpc)) =
           [log_event ?first, log_event researcher_log_end,
            log_event writer_log_start, log_event writer_log_end,
            report_event content, DONE]"
    using assms(5) by (simp add: event_generator_nodes [OF r w] value_actions_def)
  show ?thesis
    unfolding y by (simp add: logs_report_done_def log_event_def report_event_def)
qed

theorem ordered_events_when_report_nonempty_witness:
  "yielded (snd (event_generator env_scenario ''quantum computing'')) =
     [log_event (researcher_log_start ''quantum computing''), log_event researcher_log_end,
      log_event writer_log_start, log_event writer_log_end,
      report_event ''## Report'', DONE]
   \<and> logs_report_done (yielded (snd (event_generator env_scenario ''quantum computing'')))"
proof -
  have 3: "json_dumps_results env_scenario scenario_results = Inr scenario_json"
    by (simp add: env_scenario_def)
  have "yielded (snd (event_generator env_scenario ''quantum computing'')) =
           [log_event (case json_dumps_results env_scenario scenario_results of
                         Inr sd \<Rightarrow> researcher_log_start ''quantum computing''
                       | Inl e \<Rightarrow> search_error_log e),
            log_event researcher_log_end,
            log_event writer_log_start, log_event writer_log_end,
            report_event ''## Report'', DONE]
         \<and> logs_report_done (yielded (snd (event_generator env_scenario ''quantum computing'')))"
    by (rule ordered_events_when_report_nonempty [where tool = "\<lambda>q. Inr scenario_results"
                    and ainvoke = "\<lambda>p. Inr ''## Report''"])
       (simp_all add: env_scenario_def)
  then show ?thesis
    unfolding 3 sum.case .
qed

text \<open>
  C1 as it is written fails: with both capabilities initialised and both calls
  succeeding, a generation call that returns the empty text makes the run yield four logs
  and \<open>DONE\<close>, and no report.
\<close>

theorem no_report_event_for_empty_text:
  "yielded (snd (event_generator env_empty_report ''x'')) =
     [log_event (researcher_log_start ''x''), log_event researcher_log_end,
      log_event writer_log_start, log_event writer_log_end, DONE]
   \<and> \<not> logs_report_done (yielded (snd (event_generator env_empty_report ''x'')))"
  by (simp add: empty_report_run logs_report_done_def log_event_def)

text \<open>
  C2. Whatever the items the graph produces and whether or not its iteration raises, and
  so for every topic and every outcome of the two capabilities, the text of the stream
  is a sequence of units \<open>data: <JSON>\n\n\<close>, the JSON being the encoding of a
  dictionary with the keys \<open>type\<close> (\<open>log\<close> or \<open>report\<close>) and \<open>content\<close>, followed by
  the final line \<open>data: [DONE]\n\n\<close>.
\<close>

theorem wire_format:
  "(\<exists>evs. stream_text jd (stream_actions outs raised)
            = map (unit_text jd) evs @ [''data: [DONE]'' @ [CHR 0x0A, CHR 0x0A]]
          \<and> list_all log_or_report evs)
   \<and> (\<exists>evs. stream_text jd (snd (event_generator env tpc))
            = map (unit_text jd) evs @ [''data: [DONE]'' @ [CHR 0x0A, CHR 0x0A]]
          \<and> list_all log_or_report evs)"
proof -
  obtain calls outs' raised' where
    g: "app_graph_astream env (inputs tpc) = (calls, outs', raised')"
    by (rule prod_cases3)
  have "snd (event_generator env tpc) = stream_actions outs' raised'"
    by (simp add: event_generator_def g)
  then show ?thesis
    using stream_texts [of jd outs raised] stream_texts [of jd outs' raised'] by simp
qed

text \<open>
  C3. When the search tool is initialised and its call raises an exception \<open>e\<close>, the
  research node returns a dictionary and raises nothing; its \<open>search_data\<close> is
  \<open>Search Failed: \<close> followed by \<open>str(e)\<close>. The graph then runs the writer node on the
  state whose \<open>search_data\<close> is that text, the writer node returns too, and the
  iteration produces both items without raising.
\<close>

theorem search_failure_becomes_state:
  assumes "search_tool env = Some tool" and "tool (topic state) = Inl e"
  shows "research_node env state =
           ([SearchInvoke (topic state)],
            Inr \<lparr>u_logs = Some [search_error_log e, researcher_log_end],
                 u_search_data = Some (''Search Failed: '' @ str e),
                 u_final_report = None\<rparr>)
         \<and> (\<exists>calls2 u2.
               writer_node env (state\<lparr>logs := logs state @ [search_error_log e, researcher_log_end],
                                       search_data := ''Search Failed: '' @ str e\<rparr>)
                 = (calls2, Inr u2)
               \<and> app_graph_astream env state =
                   (SearchInvoke (topic state) # calls2,
                    [[(''researcher'',
                       \<lparr>u_logs = Some [search_error_log e, researcher_log_end],
                        u_search_data = Some (''Search Failed: '' @ str e),
                        u_final_report = None\<rparr>)],
                     [(''writer'', u2)]],
                    None))"
proof -
  let ?u1 = "\<lparr>u_logs = Some [search_error_log e, researcher_log_end],
              u_search_data = Some (''Search Failed: '' @ str e), u_final_report = None\<rparr>"
  let ?s1 = "state\<lparr>logs := logs state @ [search_error_log e, researcher_log_end],
                   search_data := ''Search Failed: '' @ str e\<rparr>"
  have r: "research_node env state = ([SearchInvoke (topic state)], Inr ?u1)"
    using research_node_call_raises [OF assms] by (simp add: search_failed_def)
  have m: "merge_update state ?u1 = ?s1"
    by (simp add: merge_update_def)
  obtain calls2 u2 where w: "writer_node env ?s1 = (calls2, Inr u2)"
    using writer_node_returns [of env ?s1] by blast
  have w': "writer_node env (merge_update state ?u1) = (calls2, Inr u2)"
    unfolding m by (rule w)
  have "app_graph_astream env state =
          ([SearchInvoke (topic state)] @ calls2, [[(''researcher'', ?u1)], [(''writer'', u2)]], None)"
    by (rule app_graph_astream_nodes [OF r w'])
  with r w show ?thesis by simp
qed

theorem search_failure_becomes_state_witness:
  "research_node env_timeout (inputs ''x'') =
     ([SearchInvoke ''x''],
      Inr \<lparr>u_logs = Some [search_error_log (Exception ''timeout''), researcher_log_end],
           u_search_data = Some ''Search Failed: timeout'',
           u_final_report = None\<rparr>)
   \<and> app_graph_astream env_timeout (inputs ''x'') =
       ([SearchInvoke ''x'', LlmAinvoke (prompt ''x'' ''Search Failed: timeout'')],
        [[(''researcher'',
           \<lparr>u_logs = Some [search_error_log (Exception ''timeout''), researcher_log_end],
            u_search_data = Some ''Search Failed: timeout'',
            u_final_report = None\<rparr>)],
         [(''writer'',
           \<lparr>u_logs = Some [writer_log_start, writer_log_end], u_search_data = None,
            u_final_report = Some ''## Report''\<rparr>)]],
        None)"
proof -
  have t: "search_tool env_timeout = Some (\<lambda>q. Inl (Exception ''timeout''))"
    by (simp add: env_timeout_def)
  have w: "writer_node env_timeout
             ((inputs ''x'')\<lparr>logs := logs (inputs ''x'')
                                   @ [search_error_log (Exception ''timeout''), researcher_log_end],
                            search_data := ''Search Failed: '' @ str (Exception ''timeout'')\<rparr>)
           = ([LlmAinvoke (prompt ''x'' ''Search Failed: timeout'')],
              Inr \<lparr>u_logs = Some [writer_log_start, writer_log_end], u_search_data = None,
                   u_final_report = Some ''## Report''\<rparr>)"
    by (simp add: writer_node_def env_timeout_def env_scenario_def inputs_def Let_def)
  show ?thesis
    using search_failure_becomes_state
            [OF t, where state = "inputs ''x''" and e = "Exception ''timeout''"] w
    by (simp add: inputs_def)
qed

text \<open>
  C4, as amended. When the search tool is initialised, the research node returns exactly
  two logs, and the second is always the completion log. When the search call and the
  serialisation of its result succeed, the first is the start-of-search log. When the
  search call raises, or the serialisation does, the first is instead the error log: the
  warning sign, \<open> Search Error: \<close>, and the message of the exception verbatim; the
  start-of-search log is then not among the logs.
\<close>

theorem research_logs_when_initialized:
  assumes "search_tool env = Some tool"
  shows "(tool (topic state) = Inr r \<and> json_dumps_results env r = Inr sd \<longrightarrow>
            (\<exists>calls u. research_node env state = (calls, Inr u)
               \<and> u_logs u = Some [researcher_log_start (topic state), researcher_log_end]))
       \<and> (tool (topic state) = Inl e \<longrightarrow>
            (\<exists>calls u. research_node env state = (calls, Inr u)
               \<and> u_logs u = Some [[CHR 0xE2, CHR 0x9A, CHR 0xA0, CHR 0xEF, CHR 0xB8, CHR 0x8F]
                                     @ '' Search Error: '' @ str e,
                                   researcher_log_end]))
       \<and> (tool (topic state) = Inr r \<and> json_dumps_results env r = Inl e \<longrightarrow>
            (\<exists>calls u. research_node env state = (calls, Inr u)
               \<and> u_logs u = Some [[CHR 0xE2, CHR 0x9A, CHR 0xA0, CHR 0xEF, CHR 0xB8, CHR 0x8F]
                                     @ '' Search Error: '' @ str e,
                                   researcher_log_end]))"
  using research_node_succeeds [OF assms, of state r sd]
        research_node_call_raises [OF assms, of state e]
        research_node_dumps_raises [OF assms, of state r e]
  by (simp add: search_error_log_def)

theorem research_logs_when_initialized_witness:
  "(\<exists>calls u. research_node env_scenario (inputs ''x'') = (calls, Inr u)
      \<and> u_logs u = Some [researcher_log_start ''x'', researcher_log_end])
   \<and> (\<exists>calls u. research_node env_timeout (inputs ''x'') = (calls, Inr u)
      \<and> u_logs u = Some [[CHR 0xE2, CHR 0x9A, CHR 0xA0, CHR 0xEF, CHR 0xB8, CHR 0x8F]
                            @ '' Search Error: timeout'',
                          researcher_log_end])
   \<and> (\<exists>calls u. research_node env_unserialisable (inputs ''x'') = (calls, Inr u)
      \<and> u_logs u = Some [[CHR 0xE2, CHR 0x9A, CHR 0xA0, CHR 0xEF, CHR 0xB8, CHR 0x8F]
                            @ '' Search Error: Circular reference detected'',
                          researcher_log_end])"
proof -
  have 1: "search_tool env_scenario = Some (\<lambda>q. Inr scenario_results)"
    by (simp add: env_scenario_def)
  have 2: "search_tool env_timeout = Some (\<lambda>q. Inl (Exception ''timeout''))"
    by (simp add: env_timeout_def)
  have 3: "search_tool env_unserialisable = Some (\<lambda>q. Inr scenario_results)"
    by (simp add: env_unserialisable_def env_scenario_def)
  have d1: "json_dumps_results env_scenario scenario_results = Inr scenario_json"
    by (simp add: env_scenario_def)
  have d3: "json_dumps_results env_unserialisable scenario_results
              = Inl (Exception ''Circular reference detected'')"
    by (simp add: env_unserialisable_def)
  show ?thesis
    using research_logs_when_initialized
            [OF 1, where state = "inputs ''x''" and r = scenario_results and sd = scenario_json]
          research_logs_when_initialized
            [OF 2, where state = "inputs ''x''" and e = "Exception ''timeout''"]
          research_logs_when_initialized
            [OF 3, where state = "inputs ''x''" and r = scenario_results
                     and e = "Exception ''Circular reference detected''"]
          d1 d3
    by (simp add: inputs_def)
qed

text \<open>
  C4 as it is written fails: when the search call raises \<open>ConnectionError("timeout")\<close>,
  the first of the two logs is the error log and the second the completion log; no
  start-of-search log comes first.
\<close>

theorem search_failure_drops_start_log:
  "research_node env_timeout (inputs ''x'') =
     ([SearchInvoke ''x''],
      Inr \<lparr>u_logs = Some [search_error_log (Exception ''timeout''), researcher_log_end],
           u_search_data = Some ''Search Failed: timeout'', u_final_report = None\<rparr>)
   \<and> \<not> start_then_outcome ''x'' [search_error_log (Exception ''timeout''), researcher_log_end]"
  by (simp add: research_node_def env_timeout_def env_scenario_def inputs_def Let_def
      search_failed_def start_then_outcome_def search_error_log_def researcher_log_start_def)







text \<open>
  C8. The merge appends the logs of the dictionary: empty logs leave the length of the
  logs as it was. A dictionary that carries \<open>search_data\<close> replaces the former value,
  whatever it was, and so does one that carries \<open>final_report\<close>; merging the same
  dictionary a second time changes nothing more. A key that the dictionary omits leaves
  the field as the earlier stage set it, and the topic is never changed. Each field of
  the merged state is thus fixed by the same field of the state and the same key of the
  dictionary.
\<close>

theorem merge_update_by_presence:
  "length (logs (merge_update s (u\<lparr>u_logs := Some []\<rparr>))) = length (logs s)
   \<and> logs (merge_update s (u\<lparr>u_logs := Some ls\<rparr>)) = logs s @ ls
   \<and> search_data (merge_update s (u\<lparr>u_search_data := Some d\<rparr>)) = d
   \<and> final_report (merge_update s (u\<lparr>u_final_report := Some r\<rparr>)) = r
   \<and> merge_update (merge_update s (u\<lparr>u_logs := Some [], u_search_data := Some d\<rparr>))
                   (u\<lparr>u_logs := Some [], u_search_data := Some d\<rparr>)
       = merge_update s (u\<lparr>u_logs := Some [], u_search_data := Some d\<rparr>)
   \<and> logs (merge_update s (u\<lparr>u_logs := None\<rparr>)) = logs s
   \<and> search_data (merge_update s (u\<lparr>u_search_data := None\<rparr>)) = search_data s
   \<and> final_report (merge_update s (u\<lparr>u_final_report := None\<rparr>)) = final_report s
   \<and> topic (merge_update s u) = topic s"
  by (simp add: merge_update_def split: option.split)

text \<open>
  C9. When the iteration over the graph raises an exception \<open>e\<close>, the generator yields
  what the items produced so far give, then a single unit, the dictionary with the type
  \<open>log\<close> and the content \<open>System Error: \<close> followed by \<open>str(e)\<close> (a \<open>Log\<close>
  event, whose text on the wire is \<open>data: \<close>, the encoding of that dictionary and two
  line feeds), then directly \<open>DONE\<close>. When the iteration does not raise, every item is
  turned into its units before \<open>DONE\<close>. The graph as wired never raises, whatever the
  two capabilities do: it always produces the item of the researcher and the item of the
  writer, so nothing else shortens the run.
\<close>

theorem orchestration_fault_ends_stream:
  "stream_actions outs (Some e) =
     concat (map output_actions outs)
     @ [Yield (Data [(''type'', ''log''), (''content'', ''System Error: '' @ str e)]),
        Yield DONE]
   \<and> is_log (Data [(''type'', ''log''), (''content'', ''System Error: '' @ str e)])
   \<and> stream_text jd (stream_actions [] (Some e)) =
       [''data: '' @ jd [(''type'', ''log''), (''content'', ''System Error: '' @ str e)]
          @ [CHR 0x0A, CHR 0x0A],
        ''data: [DONE]'' @ [CHR 0x0A, CHR 0x0A]]
   \<and> stream_actions outs None = concat (map output_actions outs) @ [Yield DONE]
   \<and> (\<exists>calls u1 u2.
         app_graph_astream env (inputs tpc)
           = (calls, [[(''researcher'', u1)], [(''writer'', u2)]], None)
         \<and> snd (event_generator env tpc) = value_actions u1 @ value_actions u2 @ [Yield DONE])"
proof -
  obtain calls u1 u2 where
    g: "app_graph_astream env (inputs tpc)
          = (calls, [[(''researcher'', u1)], [(''writer'', u2)]], None)"
    using app_graph_astream_completes by blast
  then have "snd (event_generator env tpc) = value_actions u1 @ value_actions u2 @ [Yield DONE]"
    by (simp add: event_generator_def)
  with g show ?thesis
    by (simp add: stream_actions_concat system_error_def log_event_def stream_text_def)
qed

text \<open>
  The same at concrete inputs: an iteration that raises \<open>RuntimeError("boom")\<close> at
  once, one that raises it after the item of the researcher of the scenario, and the
  scenario run itself, which nothing shortens.
\<close>

theorem orchestration_fault_ends_stream_witness:
  "stream_actions [] (Some (Exception ''boom'')) =
     [Yield (Data [(''type'', ''log''), (''content'', ''System Error: boom'')]), Yield DONE]
   \<and> stream_actions
        [[(''researcher'',
           \<lparr>u_logs = Some [researcher_log_start ''x'', researcher_log_end],
            u_search_data = Some scenario_json, u_final_report = None\<rparr>)]]
        (Some (Exception ''boom'')) =
     [Yield (Data [(''type'', ''log''), (''content'', researcher_log_start ''x'')]), Sleep 100,
      Yield (Data [(''type'', ''log''), (''content'', researcher_log_end)]), Sleep 100,
      Yield (Data [(''type'', ''log''), (''content'', ''System Error: boom'')]), Yield DONE]
   \<and> (\<forall>jd. stream_text jd (stream_actions [] (Some (Exception ''boom''))) =
       [''data: '' @ jd [(''type'', ''log''), (''content'', ''System Error: boom'')]
          @ [CHR 0x0A, CHR 0x0A],
        ''data: [DONE]'' @ [CHR 0x0A, CHR 0x0A]])
   \<and> snd (event_generator env_scenario ''x'') =
     [Yield (Data [(''type'', ''log''), (''content'', researcher_log_start ''x'')]), Sleep 100,
      Yield (Data [(''type'', ''log''), (''content'', researcher_log_end)]), Sleep 100,
      Yield (Data [(''type'', ''log''), (''content'', writer_log_start)]), Sleep 100,
      Yield (Data [(''type'', ''log''), (''content'', writer_log_end)]), Sleep 100,
      Yield (Data [(''type'', ''report''), (''content'', ''## Report'')]), Yield DONE]"
proof -
  let ?u1 = "\<lparr>u_logs = Some [researcher_log_start ''x'', researcher_log_end],
              u_search_data = Some scenario_json, u_final_report = None\<rparr>"
  have a: "stream_actions [] (Some (Exception ''boom'')) =
             [Yield (Data [(''type'', ''log''), (''content'', ''System Error: boom'')]),
              Yield DONE]"
    using orchestration_fault_ends_stream
            [where outs = "[]" and e = "Exception ''boom''" and jd = "\<lambda>d. []"
               and env = env_scenario and tpc = "''x''", THEN conjunct1]
    by simp
  have b: "stream_actions [[(''researcher'', ?u1)]] (Some (Exception ''boom'')) =
             concat (map output_actions [[(''researcher'', ?u1)]])
             @ [Yield (Data [(''type'', ''log''), (''content'', ''System Error: boom'')]),
                Yield DONE]"
    using orchestration_fault_ends_stream
            [where outs = "[[(''researcher'', ?u1)]]" and e = "Exception ''boom''"
               and jd = "\<lambda>d. []" and env = env_scenario and tpc = "''x''",
             THEN conjunct1]
    by simp
  have c: "stream_text jd (stream_actions [] (Some (Exception ''boom''))) =
             [''data: '' @ jd [(''type'', ''log''), (''content'', ''System Error: boom'')]
                @ [CHR 0x0A, CHR 0x0A],
              ''data: [DONE]'' @ [CHR 0x0A, CHR 0x0A]]" for jd
    using orchestration_fault_ends_stream
            [where outs = "[]" and e = "Exception ''boom''" and jd = jd
               and env = env_scenario and tpc = "''x''",
             THEN conjunct2, THEN conjunct2, THEN conjunct1]
    by simp
  have d: "concat (map output_actions [[(''researcher'', ?u1)]]) =
             [Yield (Data [(''type'', ''log''), (''content'', researcher_log_start ''x'')]),
              Sleep 100,
              Yield (Data [(''type'', ''log''), (''content'', researcher_log_end)]),
              Sleep 100]"
    by (simp add: value_actions_def log_event_def)
  have b': "stream_actions [[(''researcher'', ?u1)]] (Some (Exception ''boom'')) =
     [Yield (Data [(''type'', ''log''), (''content'', researcher_log_start ''x'')]), Sleep 100,
      Yield (Data [(''type'', ''log''), (''content'', researcher_log_end)]), Sleep 100,
      Yield (Data [(''type'', ''log''), (''content'', ''System Error: boom'')]), Yield DONE]"
    unfolding b d by simp
  have r: "snd (event_generator env_scenario ''x'') =
     [Yield (Data [(''type'', ''log''), (''content'', researcher_log_start ''x'')]), Sleep 100,
      Yield (Data [(''type'', ''log''), (''content'', researcher_log_end)]), Sleep 100,
      Yield (Data [(''type'', ''log''), (''content'', writer_log_start)]), Sleep 100,
      Yield (Data [(''type'', ''log''), (''content'', writer_log_end)]), Sleep 100,
      Yield (Data [(''type'', ''report''), (''content'', ''## Report'')]), Yield DONE]"
    by (simp add: scenario_run log_event_def report_event_def)
  show ?thesis
    by (intro conjI allI a b' c r)
qed

text \<open>
  C10, as amended. When the language model is initialised, the writer node returns
  exactly two logs in every outcome. When the generation call raises, \<open>final_report\<close> is
  the text \<open>LLM Call Failed: \<close> with the cross mark before it and the message of the
  exception after it, which is not empty, and the generator yields a \<open>Report\<close> event
  with it after the two logs. When the call succeeds, \<open>final_report\<close> is the returned
  text, and the generator yields a \<open>Report\<close> event exactly when that text is not empty.
\<close>

theorem writer_logs_and_report:
  assumes "llm env = Some ainvoke"
  shows "(ainvoke (prompt (topic state) (search_data state)) = Inl e \<longrightarrow>
            writer_node env state =
              ([LlmAinvoke (prompt (topic state) (search_data state))],
               Inr \<lparr>u_logs = Some [writer_log_start, writer_log_end], u_search_data = None,
                    u_final_report =
                      Some ([CHR 0xE2, CHR 0x9D, CHR 0x8C] @ '' LLM Call Failed: '' @ str e)\<rparr>)
            \<and> [CHR 0xE2, CHR 0x9D, CHR 0x8C] @ '' LLM Call Failed: '' @ str e \<noteq> []
            \<and> yielded (value_actions
                 \<lparr>u_logs = Some [writer_log_start, writer_log_end], u_search_data = None,
                  u_final_report =
                    Some ([CHR 0xE2, CHR 0x9D, CHR 0x8C] @ '' LLM Call Failed: '' @ str e)\<rparr>)
               = [Data [(''type'', ''log''), (''content'', writer_log_start)],
                  Data [(''type'', ''log''), (''content'', writer_log_end)],
                  Data [(''type'', ''report''),
                        (''content'',
                         [CHR 0xE2, CHR 0x9D, CHR 0x8C] @ '' LLM Call Failed: '' @ str e)]])
       \<and> (ainvoke (prompt (topic state) (search_data state)) = Inr content \<longrightarrow>
            writer_node env state =
              ([LlmAinvoke (prompt (topic state) (search_data state))],
               Inr \<lparr>u_logs = Some [writer_log_start, writer_log_end], u_search_data = None,
                    u_final_report = Some content\<rparr>)
            \<and> yielded (value_actions
                 \<lparr>u_logs = Some [writer_log_start, writer_log_end], u_search_data = None,
                  u_final_report = Some content\<rparr>)
               = [Data [(''type'', ''log''), (''content'', writer_log_start)],
                  Data [(''type'', ''log''), (''content'', writer_log_end)]]
                 @ (if content = [] then []
                    else [Data [(''type'', ''report''), (''content'', content)]]))"
  using writer_node_succeeds [OF assms, of state content]
        writer_node_call_raises [OF assms, of state e]
  by (simp add: value_actions_def llm_call_failed_def log_event_def report_event_def)

theorem writer_logs_and_report_witness:
  "writer_node env_llm_fails (inputs ''x'') =
     ([LlmAinvoke (prompt ''x'' [])],
      Inr \<lparr>u_logs = Some [writer_log_start, writer_log_end], u_search_data = None,
           u_final_report =
             Some ([CHR 0xE2, CHR 0x9D, CHR 0x8C] @ '' LLM Call Failed: rate limit'')\<rparr>)
   \<and> yielded (value_actions
        \<lparr>u_logs = Some [writer_log_start, writer_log_end], u_search_data = None,
         u_final_report =
           Some ([CHR 0xE2, CHR 0x9D, CHR 0x8C] @ '' LLM Call Failed: rate limit'')\<rparr>)
      = [Data [(''type'', ''log''), (''content'', writer_log_start)],
         Data [(''type'', ''log''), (''content'', writer_log_end)],
         Data [(''type'', ''report''),
               (''content'', [CHR 0xE2, CHR 0x9D, CHR 0x8C] @ '' LLM Call Failed: rate limit'')]]
   \<and> writer_node env_scenario (inputs ''x'') =
     ([LlmAinvoke (prompt ''x'' [])],
      Inr \<lparr>u_logs = Some [writer_log_start, writer_log_end], u_search_data = None,
           u_final_report = Some ''## Report''\<rparr>)
   \<and> yielded (value_actions
        \<lparr>u_logs = Some [writer_log_start, writer_log_end], u_search_data = None,
         u_final_report = Some ''## Report''\<rparr>)
      = [Data [(''type'', ''log''), (''content'', writer_log_start)],
         Data [(''type'', ''log''), (''content'', writer_log_end)],
         Data [(''type'', ''report''), (''content'', ''## Report'')]]"
proof -
  have 1: "llm env_llm_fails = Some (\<lambda>p. Inl (Exception ''rate limit''))"
    by (simp add: env_llm_fails_def)
  have 2: "llm env_scenario = Some (\<lambda>p. Inr ''## Report'')"
    by (simp add: env_scenario_def)
  show ?thesis
    using writer_logs_and_report
            [OF 1, where state = "inputs ''x''" and e = "Exception ''rate limit''"]
          writer_logs_and_report
            [OF 2, where state = "inputs ''x''" and content = "''## Report''"]
    by (simp add: inputs_def)
qed

text \<open>
  C10 as it is written fails: with the language model initialised and a generation call
  that returns the empty text, \<open>final_report\<close> is empty and the run has no \<open>Report\<close>
  event.
\<close>

theorem empty_generation_gives_empty_report:
  "writer_node env_empty_report
     \<lparr>topic = ''x'', logs = [researcher_log_start ''x'', researcher_log_end],
      search_data = scenario_json, final_report = []\<rparr> =
     ([LlmAinvoke (prompt ''x'' scenario_json)],
      Inr \<lparr>u_logs = Some [writer_log_start, writer_log_end], u_search_data = None,
           u_final_report = Some []\<rparr>)
   \<and> \<not> list_ex is_report (yielded (snd (event_generator env_empty_report ''x'')))"
proof -
  have "\<not> list_ex is_report (yielded (snd (event_generator env_empty_report ''x'')))"
    by (simp add: empty_report_run log_event_def)
  then show ?thesis
    by (simp add: writer_node_def env_empty_report_def env_scenario_def Let_def)
qed

end
